theory Spec2Isabelle
  imports Main
begin

section \<open>JavaScript values\<close>

text \<open>
  The policy builders store values of TypeScript type \<open>any\<close>. The fragment of JavaScript
  values they handle is: \<open>undefined\<close>, strings, arrays and plain objects. An object is an
  association list in insertion order (the order \<open>Object.keys\<close> reports for keys that
  are not integer-like); a well-formed object has distinct keys.
\<close>

datatype jsval =
    JUndefined
  | JStr string
  | JArr "jsval list"
  | JObj "(string \<times> jsval) list"

text \<open>JavaScript truthiness, as used by \<open>if (normVal)\<close> and by \<open>a || b\<close>.\<close>

fun truthy :: "jsval \<Rightarrow> bool" where
  "truthy JUndefined = False"
| "truthy (JStr s) = (s \<noteq> [])"
| "truthy (JArr xs) = True"
| "truthy (JObj kvs) = True"

text \<open>\<open>Object.keys(o)\<close>.\<close>

definition obj_keys :: "(string \<times> 'v) list \<Rightarrow> string list" where
  "obj_keys obj = map fst obj"

text \<open>\<open>o[key]\<close> for an object holding JavaScript values: \<open>undefined\<close> when the key is missing.\<close>

definition obj_get :: "(string \<times> jsval) list \<Rightarrow> string \<Rightarrow> jsval" where
  "obj_get obj key = (case map_of obj key of None \<Rightarrow> JUndefined | Some v \<Rightarrow> v)"

text \<open>
  \<open>o[key] = value\<close>: an existing key keeps its position and gets the new value, a new
  key is appended.
\<close>

fun obj_set :: "string \<Rightarrow> 'v \<Rightarrow> (string \<times> 'v) list \<Rightarrow> (string \<times> 'v) list" where
  "obj_set key v [] = [(key, v)]"
| "obj_set key v (p # ps) = (if fst p = key then (key, v) # ps else p # obj_set key v ps)"

section \<open>PolicyStatement\<close>

datatype PolicyStatementEffect = Allow | Deny

text \<open>The enum's string values: \<open>Allow = 'Allow'\<close>, \<open>Deny = 'Deny'\<close>.\<close>

fun effect_value :: "PolicyStatementEffect \<Rightarrow> jsval" where
  "effect_value Allow = JStr ''Allow''"
| "effect_value Deny = JStr ''Deny''"

text \<open>
  The private fields of class \<open>PolicyStatement\<close>. \<open>effect\<close> and \<open>sid\<close> are declared
  optional in the source, hence the \<open>option\<close>.
\<close>

record PolicyStatement =
  action :: "jsval list"
  principal :: "(string \<times> jsval list) list"
  resource :: "jsval list"
  condition :: "(string \<times> jsval) list"
  effect :: "PolicyStatementEffect option"
  sid :: "jsval option"

text \<open>
  The constructor: \<open>constructor(effect = PolicyStatementEffect.Allow)\<close>. The argument is
  \<open>None\<close> when the caller gives none (or \<open>undefined\<close>), and the default applies.
\<close>

definition PolicyStatement_new :: "PolicyStatementEffect option \<Rightarrow> PolicyStatement" where
  "PolicyStatement_new eff =
     \<lparr> action = [], principal = [], resource = [], condition = [],
       effect = Some (case eff of None \<Rightarrow> Allow | Some e \<Rightarrow> e),
       sid = None \<rparr>"

definition addAction :: "string \<Rightarrow> PolicyStatement \<Rightarrow> PolicyStatement" where
  "addAction a s = s\<lparr>action := action s @ [JStr a]\<rparr>"

definition addActions :: "string list \<Rightarrow> PolicyStatement \<Rightarrow> PolicyStatement" where
  "addActions actions s = fold addAction actions s"

definition hasPrincipal :: "PolicyStatement \<Rightarrow> bool" where
  "hasPrincipal s = (length (obj_keys (principal s)) > 0)"

text \<open>
  The value of \<open>principal.policyFragment\<close>: a principal map and the conditions that come
  with it. The principal classes themselves live in \<open>./principals\<close>.
\<close>

record PrincipalPolicyFragment =
  principalJson :: "(string \<times> jsval list) list"
  conditions :: "(string \<times> jsval) list"

text \<open>
  Modelled from the spec: \<open>mergePrincipal\<close> of \<open>./util\<close>, whose source is not part of the
  files at hand. The spec says: the fragment's principal values are appended into the
  existing list for that tag, creating the tag entry if absent.
\<close>

definition mergePrincipal ::
  "(string \<times> jsval list) list \<Rightarrow> (string \<times> jsval list) list \<Rightarrow> (string \<times> jsval list) list" where
  "mergePrincipal target source =
     fold (\<lambda>key tgt.
             obj_set key
               ((case map_of tgt key of None \<Rightarrow> [] | Some vs \<Rightarrow> vs) @
                (case map_of source key of None \<Rightarrow> [] | Some vs \<Rightarrow> vs)) tgt)
          (obj_keys source) target"

definition addCondition :: "string \<Rightarrow> jsval \<Rightarrow> PolicyStatement \<Rightarrow> PolicyStatement" where
  "addCondition key v s = s\<lparr>condition := obj_set key v (condition s)\<rparr>"

definition addConditions :: "(string \<times> jsval) list \<Rightarrow> PolicyStatement \<Rightarrow> PolicyStatement" where
  "addConditions conds s = fold (\<lambda>key. addCondition key (obj_get conds key)) (obj_keys conds) s"

definition addPrincipal :: "PrincipalPolicyFragment \<Rightarrow> PolicyStatement \<Rightarrow> PolicyStatement" where
  "addPrincipal fragment s =
     addConditions (conditions fragment)
       (s\<lparr>principal := mergePrincipal (principal s) (principalJson fragment)\<rparr>)"

definition addResource :: "string \<Rightarrow> PolicyStatement \<Rightarrow> PolicyStatement" where
  "addResource arn s = s\<lparr>resource := resource s @ [JStr arn]\<rparr>"

definition addAllResources :: "PolicyStatement \<Rightarrow> PolicyStatement" where
  "addAllResources s = addResource ''*'' s"

definition addResources :: "string list \<Rightarrow> PolicyStatement \<Rightarrow> PolicyStatement" where
  "addResources arns s = fold addResource arns s"

definition hasResource :: "PolicyStatement \<Rightarrow> bool" where
  "hasResource s = (length (resource s) > 0)"

definition describe :: "string \<Rightarrow> PolicyStatement \<Rightarrow> PolicyStatement" where
  "describe d s = s\<lparr>sid := Some (JStr d)\<rparr>"

definition allow :: "PolicyStatement \<Rightarrow> PolicyStatement" where
  "allow s = s\<lparr>effect := Some Allow\<rparr>"

definition deny :: "PolicyStatement \<Rightarrow> PolicyStatement" where
  "deny s = s\<lparr>effect := Some Deny\<rparr>"

definition setCondition :: "string \<Rightarrow> jsval \<Rightarrow> PolicyStatement \<Rightarrow> PolicyStatement" where
  "setCondition key v s = addCondition key v s"

text \<open>
  \<open>limitToAccount\<close> stores a lazy token that produces \<open>{ 'sts:ExternalId': accountId }\<close>;
  the token is represented by the object it produces.
\<close>

definition limitToAccount :: "string \<Rightarrow> PolicyStatement \<Rightarrow> PolicyStatement" where
  "limitToAccount accountId s =
     addCondition ''StringEquals'' (JObj [(''sts:ExternalId'', JStr accountId)]) s"

subsection \<open>Serialization\<close>

text \<open>
  The local function \<open>_norm\<close> of \<open>toJson\<close>, with the source's case order: \<open>undefined\<close>
  first, then arrays by length, then objects without keys, then everything else.
\<close>

fun norm_value :: "jsval \<Rightarrow> jsval" where
  "norm_value JUndefined = JUndefined"
| "norm_value (JArr []) = JUndefined"
| "norm_value (JArr [x]) = x"
| "norm_value (JArr xs) = JArr xs"
| "norm_value (JObj []) = JUndefined"
| "norm_value v = v"

text \<open>
  The local function \<open>_normPrincipal\<close>: \<open>undefined\<close> for a map without keys; otherwise
  every key whose normalised value is truthy is copied into \<open>result\<close>, and a result
  that is exactly \<open>{ AWS: '*' }\<close> collapses to \<open>'*'\<close>.
\<close>

definition normPrincipal_step ::
  "(string \<times> jsval list) list \<Rightarrow> string \<Rightarrow> (string \<times> jsval) list \<Rightarrow> (string \<times> jsval) list" where
  "normPrincipal_step p key result =
     (let normVal = norm_value (case map_of p key of None \<Rightarrow> JUndefined | Some vs \<Rightarrow> JArr vs)
      in if truthy normVal then obj_set key normVal result else result)"

definition normPrincipal_result :: "(string \<times> jsval list) list \<Rightarrow> (string \<times> jsval) list" where
  "normPrincipal_result p = fold (normPrincipal_step p) (obj_keys p) []"

definition normPrincipal :: "(string \<times> jsval list) list \<Rightarrow> jsval" where
  "normPrincipal p =
     (let keys = obj_keys p in
      if length keys = 0 then JUndefined
      else
        let result = normPrincipal_result p in
        if length (obj_keys result) = 1 \<and> obj_get result ''AWS'' = JStr ''*'' then JStr ''*''
        else JObj result)"

text \<open>
  The object returned by \<open>toJson\<close>. A field whose value is \<open>undefined\<close> is a field that
  is absent from the emitted template.
\<close>

record StatementJson =
  Action :: jsval
  Condition :: jsval
  Effect :: jsval
  Principal :: jsval
  Resource :: jsval
  Sid :: jsval

definition toJson :: "PolicyStatement \<Rightarrow> StatementJson" where
  "toJson s =
     \<lparr> Action = norm_value (JArr (action s)),
       Condition = norm_value (JObj (condition s)),
       Effect = norm_value (case effect s of None \<Rightarrow> JUndefined | Some e \<Rightarrow> effect_value e),
       Principal = normPrincipal (principal s),
       Resource = norm_value (JArr (resource s)),
       Sid = norm_value (case sid s of None \<Rightarrow> JUndefined | Some v \<Rightarrow> v) \<rparr>"

section \<open>PolicyDocument\<close>

text \<open>
  An entry of a document's \<open>Statement\<close> array: a value that came with the base document,
  or a \<open>PolicyStatement\<close> object added by \<open>addStatement\<close> (\<open>resolve\<close> concatenates the
  statement objects themselves; each is rendered by its own \<open>toJson\<close> later).
\<close>

datatype statement_entry = Existing jsval | Added PolicyStatement

text \<open>
  A policy document object: the base document handed to the constructor and the object
  \<open>resolve\<close> returns. \<open>Version\<close> is \<open>JUndefined\<close> and \<open>Statement\<close> is \<open>None\<close> when the
  object lacks the key; \<open>Other\<close> holds every other key.
\<close>

record DocumentJson =
  Version :: jsval
  Statement :: "statement_entry list option"
  Other :: "(string \<times> jsval) list"

record PolicyDocument =
  statements :: "PolicyStatement list"
  baseDocument :: "DocumentJson option"

definition PolicyDocument_new :: "DocumentJson option \<Rightarrow> PolicyDocument" where
  "PolicyDocument_new base = \<lparr> statements = [], baseDocument = base \<rparr>"

definition isEmpty :: "PolicyDocument \<Rightarrow> bool" where
  "isEmpty d = (length (statements d) = 0)"

definition statementCount :: "PolicyDocument \<Rightarrow> nat" where
  "statementCount d = length (statements d)"

definition addStatement :: "PolicyStatement \<Rightarrow> PolicyDocument \<Rightarrow> PolicyDocument" where
  "addStatement st d = d\<lparr>statements := statements d @ [st]\<rparr>"

text \<open>\<open>PolicyDocument.resolve\<close>; the result \<open>None\<close> is the source's \<open>undefined\<close>.\<close>

definition PolicyDocument_resolve :: "PolicyDocument \<Rightarrow> DocumentJson option" where
  "PolicyDocument_resolve d =
     (if isEmpty d then None
      else
        let doc = (case baseDocument d of
                     None \<Rightarrow> \<lparr> Version = JUndefined, Statement = None, Other = [] \<rparr>
                   | Some b \<Rightarrow> b);
            doc = doc\<lparr>Statement := Some (case Statement doc of None \<Rightarrow> [] | Some ss \<Rightarrow> ss)\<rparr>;
            doc = doc\<lparr>Version := (if truthy (Version doc) then Version doc else JStr ''2012-10-17'')\<rparr>;
            doc = doc\<lparr>Statement :=
                        Some ((case Statement doc of None \<Rightarrow> [] | Some ss \<Rightarrow> ss) @
                              map Added (statements d))\<rparr>
        in Some doc)"


section \<open>Sequences of builder calls\<close>

text \<open>
  A statement is created by the constructor and then mutated by builder calls only. The
  public mutators of \<open>PolicyStatement\<close> are listed here; the principal helpers
  (\<open>addAwsPrincipal\<close>, \<open>addServicePrincipal\<close>, \<open>addAnyPrincipal\<close>, ...) all go through
  \<open>addPrincipal\<close> with the fragment of the principal they create.
\<close>

datatype builder_call =
    CallAddAction string
  | CallAddActions "string list"
  | CallAddPrincipal PrincipalPolicyFragment
  | CallAddResource string
  | CallAddAllResources
  | CallAddResources "string list"
  | CallDescribe string
  | CallAllow
  | CallDeny
  | CallAddCondition string jsval
  | CallAddConditions "(string \<times> jsval) list"
  | CallSetCondition string jsval
  | CallLimitToAccount string

fun call :: "builder_call \<Rightarrow> PolicyStatement \<Rightarrow> PolicyStatement" where
  "call (CallAddAction a) s = addAction a s"
| "call (CallAddActions as) s = addActions as s"
| "call (CallAddPrincipal f) s = addPrincipal f s"
| "call (CallAddResource r) s = addResource r s"
| "call CallAddAllResources s = addAllResources s"
| "call (CallAddResources rs) s = addResources rs s"
| "call (CallDescribe d) s = describe d s"
| "call CallAllow s = allow s"
| "call CallDeny s = deny s"
| "call (CallAddCondition k v) s = addCondition k v s"
| "call (CallAddConditions cs) s = addConditions cs s"
| "call (CallSetCondition k v) s = setCondition k v s"
| "call (CallLimitToAccount a) s = limitToAccount a s"

definition calls :: "builder_call list \<Rightarrow> PolicyStatement \<Rightarrow> PolicyStatement" where
  "calls cs s = fold call cs s"

text \<open>
  The normalisation rule for array-valued fields as the specification words it, applied
  to every entry of a principal map: a key with an empty list is omitted, a list of one
  element becomes that element, a list of two or more elements stays the list. This is
  the normalisation that claims about the principal map refer to; it is not always what
  \<open>_normPrincipal\<close> builds.
\<close>

fun spec_norm_list :: "jsval list \<Rightarrow> jsval" where
  "spec_norm_list [x] = x"
| "spec_norm_list xs = JArr xs"

definition spec_normalized_principal ::
  "(string \<times> jsval list) list \<Rightarrow> (string \<times> jsval) list" where
  "spec_normalized_principal p =
     map (\<lambda>(k, vs). (k, spec_norm_list vs)) (filter (\<lambda>(k, vs). vs \<noteq> []) p)"

section \<open>The MSK cluster construct\<close>

text \<open>
  A string property is either known at construction time or a deferred token;
  \<open>core.Token.isUnresolved\<close> tells the two apart.
\<close>

datatype string_value = Resolved string | Unresolved string

fun isUnresolved :: "string_value \<Rightarrow> bool" where
  "isUnresolved (Resolved s) = False"
| "isUnresolved (Unresolved t) = True"

datatype ClientBrokerEncryption = TLS | TLS_PLAINTEXT | PLAINTEXT

text \<open>A thrown \<open>Error\<close> with its message.\<close>

datatype error = Error string

text \<open>
  Modelled from the spec: the property interfaces (\<open>ClusterProps\<close> and the interfaces it
  nests) are declared in the package's index, which is not among the files at hand. The
  records hold the fields that the constructor reads, each optional where the constructor
  reads it through \<open>?.\<close>. The revision with \<open>addUser\<close> calls the two authentication
  blocks \<open>tlsProps\<close> and \<open>saslProps\<close>; the other calls them \<open>tls\<close> and \<open>sasl\<close>.
  A volume size is a whole number of GiB. \<open>selectSubnets\<close> stands for the outcome of
  the call \<open>vpc.selectSubnets(vpcSubnets)\<close> on the given VPC: the error it throws (when
  the selection matches no subnet group of the VPC, for instance) or the subnets it
  returns.
\<close>

record EncryptionInTransitConfig =
  clientBroker :: "ClientBrokerEncryption option"
  enableInCluster :: "bool option"

record TlsAuthProps =
  certificateAuthorityArns :: "string list option"

record SaslAuthProps =
  scram :: "bool option"
  key :: "string option"

record ClientAuthentication =
  tls :: "TlsAuthProps option"
  sasl :: "SaslAuthProps option"

record EbsStorageInfo =
  volumeSize :: "int option"

record StorageInfo =
  ebsStorageInfo :: "EbsStorageInfo option"

record BrokerNodeGroupProps =
  selectSubnets :: "error + string list"
  securityGroups :: "string list option"
  storageInfo :: "StorageInfo option"

record ClusterProps =
  clusterName :: string_value
  brokerNodeGroupProps :: BrokerNodeGroupProps
  encryptionInTransit :: "EncryptionInTransitConfig option"
  clientAuthentication :: "ClientAuthentication option"

text \<open>The optional chains of the constructor.\<close>

definition props_clientBroker :: "ClusterProps \<Rightarrow> ClientBrokerEncryption option" where
  "props_clientBroker props = Option.bind (encryptionInTransit props) clientBroker"

definition props_certificateAuthorityArns :: "ClusterProps \<Rightarrow> string list option" where
  "props_certificateAuthorityArns props =
     Option.bind (clientAuthentication props) (\<lambda>ca. Option.bind (tls ca) certificateAuthorityArns)"

definition props_scram :: "ClusterProps \<Rightarrow> bool option" where
  "props_scram props =
     Option.bind (clientAuthentication props) (\<lambda>ca. Option.bind (sasl ca) scram)"

definition props_sasl_key :: "ClusterProps \<Rightarrow> string option" where
  "props_sasl_key props =
     Option.bind (clientAuthentication props) (\<lambda>ca. Option.bind (sasl ca) key)"

definition props_volumeSize :: "ClusterProps \<Rightarrow> int option" where
  "props_volumeSize props =
     Option.bind (storageInfo (brokerNodeGroupProps props))
       (\<lambda>si. Option.bind (ebsStorageInfo si) volumeSize)"

text \<open>Truthiness of an optional array (any array is truthy) and of an optional boolean.\<close>

definition truthy_array :: "'a list option \<Rightarrow> bool" where
  "truthy_array a = (a \<noteq> None)"

definition truthy_bool :: "bool option \<Rightarrow> bool" where
  "truthy_bool b = (b = Some True)"

text \<open>The decimal rendering of a number in a template literal.\<close>

function string_of_nat :: "nat \<Rightarrow> string" where
  "string_of_nat n =
     (if n < 10 then [''0123456789'' ! n]
      else string_of_nat (n div 10) @ [''0123456789'' ! (n mod 10)])"
  by pat_completeness auto
termination
  by (relation "measure id") auto

text \<open>\<open>/^[a-zA-Z0-9]+$/.test(s)\<close>: one or more characters, all of them letters or digits.\<close>

definition alphanumerics :: string where
  "alphanumerics = ''abcdefghijklmnopqrstuvwxyzABCDEFGHIJKLMNOPQRSTUVWXYZ0123456789''"

definition alphanumeric_test :: "string \<Rightarrow> bool" where
  "alphanumeric_test s = (s \<noteq> [] \<and> list_all (\<lambda>c. c \<in> set alphanumerics) s)"

subsection \<open>The diagnostics of the constructor\<close>

definition subnets_error :: "nat \<Rightarrow> string" where
  "subnets_error n = ''Cluster requires at least 2 subnets, got '' @ string_of_nat n"

definition name_error :: "string \<Rightarrow> string" where
  "name_error name =
     ''The cluster name must only contain alphanumeric characters and have a maximum length of 64 characters.'' @
     ''got: '' @ [CHR 0x27] @ name @ ''. length: '' @ string_of_nat (length name) @ [CHR 0x27]"

definition exclusive_error :: string where
  "exclusive_error = ''Only one of SASL/SCRAM or TLS client authentication can be set.''"

definition plaintext_error :: string where
  "plaintext_error =
     ''To enable client authentication, you must enabled TLS-encrypted traffic between clients and brokers.''"

definition tls_plaintext_error :: string where
  "tls_plaintext_error =
     ''To enable SASL/SCRAM authentication, you must only allow TLS-encrypted traffic between clients and brokers.''"

definition volume_error :: string where
  "volume_error = ''EBS volume size should be in the range 1-16384''"

text \<open>
  Each check of the constructor, as the list of messages it hands to
  \<open>Annotations.of(this).addError\<close>: empty or one message. The first check looks at the
  subnets that \<open>selectSubnets\<close> returned.
\<close>

definition check_subnets :: "string list \<Rightarrow> string list" where
  "check_subnets subnets =
     (let n = length subnets
      in if n < 2 then [subnets_error n] else [])"

definition check_name :: "ClusterProps \<Rightarrow> string list" where
  "check_name props =
     (case clusterName props of
        Unresolved t \<Rightarrow> []
      | Resolved name \<Rightarrow>
          if \<not> alphanumeric_test name \<and> length name > 64 then [name_error name] else [])"

definition check_exclusive :: "ClusterProps \<Rightarrow> string list" where
  "check_exclusive props =
     (if truthy_array (props_certificateAuthorityArns props) \<and> truthy_bool (props_scram props)
      then [exclusive_error] else [])"

definition check_encryption :: "ClusterProps \<Rightarrow> string list" where
  "check_encryption props =
     (if props_clientBroker props = Some PLAINTEXT \<and>
         (truthy_array (props_certificateAuthorityArns props) \<or> truthy_bool (props_scram props))
      then [plaintext_error]
      else if props_clientBroker props = Some TLS_PLAINTEXT \<and> truthy_bool (props_scram props)
      then [tls_plaintext_error]
      else [])"

definition check_volume :: "ClusterProps \<Rightarrow> string list" where
  "check_volume props =
     (case props_volumeSize props of
        None \<Rightarrow> []
      | Some v \<Rightarrow> if v < 1 \<or> v > 16384 then [volume_error] else [])"

text \<open>
  The diagnostics in the order the constructor adds them. \<open>Cluster_errors\<close> is the
  constructor of \<open>lib/cluster.ts\<close>; \<open>Cluster_errors_addUser\<close> is the constructor of the
  revision that has \<open>addUser\<close>, which has no check for mutually exclusive authentication.
\<close>

definition Cluster_errors :: "string list \<Rightarrow> ClusterProps \<Rightarrow> string list" where
  "Cluster_errors subnets props =
     check_subnets subnets @ check_name props @ check_exclusive props @
     check_encryption props @ check_volume props"

definition Cluster_errors_addUser :: "string list \<Rightarrow> ClusterProps \<Rightarrow> string list" where
  "Cluster_errors_addUser subnets props =
     check_subnets subnets @ check_name props @ check_encryption props @ check_volume props"

subsection \<open>ClusterBase, the constructor and the import\<close>

record Connections =
  connectionSecurityGroups :: "string list"

text \<open>The part of the \<open>CfnCluster\<close> resource that depends on the checked properties.\<close>

record CfnCluster =
  resourceSecurityGroups :: "string list"
  resourceVolumeSize :: int
  resourceClientBroker :: ClientBrokerEncryption

text \<open>
  \<open>ClusterBase\<close> and its subclasses: the protected field \<open>_connections\<close>, the two
  attributes, the error annotations attached to the construct, the resource, and the field
  \<open>saslScramAuthenticationKey\<close> that the revision with \<open>addUser\<close> adds to \<open>Cluster\<close>.
\<close>

record ClusterBase =
  priv_connections :: "Connections option"
  clusterArn :: string_value
  clusterNameAttr :: "string_value option"
  annotations :: "string list"
  cfnResource :: "CfnCluster option"
  saslScramAuthenticationKey :: "string option"

text \<open>The getter \<open>connections\<close>: it throws when \<open>_connections\<close> was never assigned.\<close>

definition connections :: "ClusterBase \<Rightarrow> error + Connections" where
  "connections c =
     (case priv_connections c of
        None \<Rightarrow> Inl (Error ''An imported Cluster cannot manage its security groups'')
      | Some conns \<Rightarrow> Inr conns)"



text \<open>
  The constructor, given the checks of its revision. After \<open>super\<close> it calls
  \<open>vpc.selectSubnets\<close>; a throw of that call aborts the construction before
  \<open>_connections\<close> is assigned and before any check runs. Then it assigns \<open>_connections\<close>
  (the given security groups, or one new security group), runs the checks on the selected
  subnets and the properties, and reads \<open>this.connections\<close> again when it builds the
  resource; a throw of the getter there would abort the construction as well. The
  attributes of a constructed cluster are tokens that refer to the resource. The
  constructors of the security group, the key and the resource are taken to return.
\<close>

definition construct ::
  "(string list \<Rightarrow> ClusterProps \<Rightarrow> string list) \<Rightarrow> ClusterProps \<Rightarrow> error + ClusterBase" where
  "construct errors props =
     (let brokerProps = brokerNodeGroupProps props
      in case selectSubnets brokerProps of
           Inl e \<Rightarrow> Inl e
         | Inr subnetSelection \<Rightarrow>
             (let this = \<lparr> priv_connections =
                             Some \<lparr> connectionSecurityGroups =
                                      (case securityGroups brokerProps of
                                         None \<Rightarrow> [''SecurityGroup'']
                                       | Some sgs \<Rightarrow> sgs) \<rparr>,
                           clusterArn = Unresolved ''Ref'',
                           clusterNameAttr = None,
                           annotations = [],
                           cfnResource = None,
                           saslScramAuthenticationKey = None \<rparr>;
                  this = this\<lparr>annotations := annotations this @ errors subnetSelection props\<rparr>
              in case connections this of
                   Inl e \<Rightarrow> Inl e
                 | Inr conns \<Rightarrow>
                     Inr (this\<lparr>cfnResource :=
                                 Some \<lparr> resourceSecurityGroups = connectionSecurityGroups conns,
                                        resourceVolumeSize =
                                          (case props_volumeSize props of
                                             None \<Rightarrow> 1000
                                           | Some v \<Rightarrow> if v = 0 then 1000 else v),
                                        resourceClientBroker =
                                          (case props_clientBroker props of
                                             None \<Rightarrow> TLS
                                           | Some b \<Rightarrow> b) \<rparr>,
                               clusterNameAttr := Some (Unresolved ''Fn::Select''),
                               clusterArn := Unresolved ''Ref''\<rparr>)))"

definition Cluster_new :: "ClusterProps \<Rightarrow> error + ClusterBase" where
  "Cluster_new props = construct Cluster_errors props"

text \<open>
  The revision with \<open>addUser\<close> keeps the key it creates for SASL/SCRAM (when SCRAM is on
  and no key is given) in \<open>saslScramAuthenticationKey\<close>.
\<close>

definition Cluster_new_addUser :: "ClusterProps \<Rightarrow> error + ClusterBase" where
  "Cluster_new_addUser props =
     (case construct Cluster_errors_addUser props of
        Inl e \<Rightarrow> Inl e
      | Inr this \<Rightarrow>
          Inr (this\<lparr>saslScramAuthenticationKey :=
                      (if truthy_bool (props_scram props) \<and> props_sasl_key props = None
                       then Some ''SASLKey'' else None)\<rparr>))"


text \<open>
  The file \<open>lib/cluster.ts\<close> is followed by an older revision of the class, which has no
  checks and no \<open>fromClusterArn\<close>; it is not modelled.
\<close>

section \<open>Facts about objects and normalisation\<close>

lemma map_of_obj_set: "map_of (obj_set k v obj) = (map_of obj)(k \<mapsto> v)"
  by (induction obj) (auto simp: fun_eq_iff)

lemma obj_keys_obj_set:
  "obj_keys (obj_set k v obj) =
     (if k \<in> set (obj_keys obj) then obj_keys obj else obj_keys obj @ [k])"
  by (induction obj) (auto simp: obj_keys_def)

lemma obj_set_fresh: "k \<notin> set (obj_keys obj) \<Longrightarrow> obj_set k v obj = obj @ [(k, v)]"
  by (induction obj) (auto simp: obj_keys_def)

lemma obj_get_obj_set: "obj_get (obj_set k v obj) k' = (if k' = k then v else obj_get obj k')"
  by (simp add: obj_get_def map_of_obj_set)

lemma distinct_obj_set: "distinct (obj_keys obj) \<Longrightarrow> distinct (obj_keys (obj_set k v obj))"
  by (simp add: obj_keys_obj_set)

lemma norm_value_many: "2 \<le> length xs \<Longrightarrow> norm_value (JArr xs) = JArr xs"
proof -
  assume "2 \<le> length xs"
  then obtain a b ys where "xs = a # b # ys"
    by (cases xs; cases "tl xs") auto
  then show ?thesis by simp
qed

text \<open>A value is never an array that has the value itself as an element.\<close>

lemma jsval_not_in_own_array: "x \<noteq> JArr (ys @ x # zs)"
proof
  assume eq: "x = JArr (ys @ x # zs)"
  have "size (JArr (ys @ x # zs)) > size x"
    by (induction ys) auto
  with eq show False by simp
qed

text \<open>Pushing a string onto an array always changes what the array normalises to.\<close>

lemma norm_value_push_neq: "norm_value (JArr (xs @ [JStr a])) \<noteq> norm_value (JArr xs)"
proof (cases xs)
  case Nil
  then show ?thesis by simp
next
  case (Cons x ys)
  show ?thesis
  proof (cases ys)
    case Nil
    with Cons show ?thesis
      using jsval_not_in_own_array [of x "[]" "[JStr a]"] by auto
  next
    case (Cons y zs)
    with \<open>xs = x # ys\<close> show ?thesis by simp
  qed
qed

lemma action_fold_addAction: "action (fold addAction xs s) = action s @ map JStr xs"
  by (induction xs arbitrary: s) (simp_all add: addAction_def)

lemma resource_fold_addResource: "resource (fold addResource xs s) = resource s @ map JStr xs"
  by (induction xs arbitrary: s) (simp_all add: addResource_def)

lemma condition_fold_addCondition:
  "obj_get (condition (fold (\<lambda>key. addCondition key (obj_get cs key)) ks s)) k =
     (if k \<in> set ks then obj_get cs k else obj_get (condition s) k)"
  by (induction ks arbitrary: s) (auto simp: addCondition_def obj_get_obj_set)

section \<open>Conditions: a later value replaces the earlier one\<close>

text \<open>
  Claim C5 says that two condition-add operations on the same operator key are merged by
  list-append, the earlier value being retained. It fails: \<open>addCondition\<close> assigns
  \<open>this.condition[key] = value\<close>. After two adds on \<open>StringEquals\<close>, directly or through
  the conditions of a principal fragment, the serialized \<open>Condition\<close> holds the second
  payload only.
\<close>

theorem condition_replaced_not_merged:
  "Condition (toJson (addCondition ''StringEquals'' (JObj [(''aws:b'', JStr ''2'')])
      (addCondition ''StringEquals'' (JObj [(''aws:a'', JStr ''1'')]) (PolicyStatement_new None))))
     = JObj [(''StringEquals'', JObj [(''aws:b'', JStr ''2'')])] \<and>
   Condition (toJson (addPrincipal
        \<lparr>principalJson = [(''Federated'', [JStr ''cognito''])],
           conditions = [(''StringEquals'', JObj [(''aws:b'', JStr ''2'')])]\<rparr>
        (addCondition ''StringEquals'' (JObj [(''aws:a'', JStr ''1'')]) (PolicyStatement_new None))))
     = JObj [(''StringEquals'', JObj [(''aws:b'', JStr ''2'')])]"
  by (simp add: toJson_def addCondition_def addPrincipal_def addConditions_def
      PolicyStatement_new_def obj_keys_def obj_get_def mergePrincipal_def)

text \<open>
  Claim C5, amended: for every statement and every pair of condition-add operations on the
  same operator key, the later value replaces the earlier one. After
  \<open>addCondition k v1\<close> and then \<open>addCondition k v2\<close> the key holds \<open>v2\<close> and the set of keys
  is the one after the first add; after \<open>addCondition k v1\<close> and then \<open>addPrincipal\<close>
  (or \<open>addConditions\<close>) with conditions that have the key \<open>k\<close>, the key holds the value
  of those conditions.
\<close>

theorem condition_last_write_wins:
  "obj_get (condition (addCondition k v2 (addCondition k v1 s))) k = v2 \<and>
   obj_keys (condition (addCondition k v2 (addCondition k v1 s))) =
     obj_keys (condition (addCondition k v1 s)) \<and>
   (k \<in> set (obj_keys (conditions f)) \<longrightarrow>
      obj_get (condition (addPrincipal f (addCondition k v1 s))) k = obj_get (conditions f) k) \<and>
   (k \<in> set (obj_keys cs) \<longrightarrow>
      obj_get (condition (addConditions cs (addCondition k v1 s))) k = obj_get cs k)"
  by (simp add: addCondition_def addPrincipal_def addConditions_def obj_get_obj_set
      obj_keys_obj_set condition_fold_addCondition)

theorem condition_last_write_wins_witness:
  "obj_get (condition (addCondition ''StringEquals'' (JObj [(''aws:b'', JStr ''2'')])
      (addCondition ''StringEquals'' (JObj [(''aws:a'', JStr ''1'')]) (PolicyStatement_new None))))
      ''StringEquals'' = JObj [(''aws:b'', JStr ''2'')] \<and>
   ''StringEquals'' \<in> set (obj_keys [(''StringEquals'', JObj [(''aws:b'', JStr ''2'')])]) \<and>
   obj_get (condition (addPrincipal
        \<lparr>principalJson = [(''Federated'', [JStr ''cognito''])],
           conditions = [(''StringEquals'', JObj [(''aws:b'', JStr ''2'')])]\<rparr>
        (addCondition ''StringEquals'' (JObj [(''aws:a'', JStr ''1'')]) (PolicyStatement_new None))))
      ''StringEquals'' = JObj [(''aws:b'', JStr ''2'')]"
  using condition_last_write_wins
    [of "''StringEquals''" "JObj [(''aws:b'', JStr ''2'')]" "JObj [(''aws:a'', JStr ''1'')]"
        "PolicyStatement_new None"
        "\<lparr>principalJson = [(''Federated'', [JStr ''cognito''])],
           conditions = [(''StringEquals'', JObj [(''aws:b'', JStr ''2'')])]\<rparr>"
        "[]"]
  by (simp add: obj_keys_def obj_get_def)

section \<open>Actions and resources: duplicates are kept\<close>

text \<open>
  Claim C6 says that actions and resources are deduplicated on emit, so that adding an
  element already present leaves the output of \<open>toJson\<close> unchanged. It fails:
  \<open>addAction\<close> pushes and \<open>_norm\<close> removes nothing. One \<open>s3:GetObject\<close> is emitted as a
  scalar, two as an array of two equal entries.
\<close>

theorem duplicate_action_changes_output:
  "Action (toJson (addAction ''s3:GetObject'' (PolicyStatement_new None))) = JStr ''s3:GetObject'' \<and>
   Action (toJson (addAction ''s3:GetObject'' (addAction ''s3:GetObject'' (PolicyStatement_new None))))
     = JArr [JStr ''s3:GetObject'', JStr ''s3:GetObject''] \<and>
   toJson (addAction ''s3:GetObject'' (addAction ''s3:GetObject'' (PolicyStatement_new None)))
     \<noteq> toJson (addAction ''s3:GetObject'' (PolicyStatement_new None))"
  by (simp add: toJson_def addAction_def PolicyStatement_new_def)

text \<open>
  Claim C6, amended: the actions and resources collections are not deduplicated. Every
  \<open>addAction\<close> and \<open>addResource\<close> changes the output of \<open>toJson\<close>, whether or not the
  element is already present, and the elements are emitted in insertion order with their
  duplicates: after \<open>addActions\<close> the emitted sequence is the old sequence followed by the
  new elements (normalised as a whole), and on a fresh statement two or more added
  elements are emitted as exactly that array.
\<close>

theorem actions_resources_keep_duplicates:
  "toJson (addAction a s) \<noteq> toJson s \<and>
   toJson (addResource r s) \<noteq> toJson s \<and>
   Action (toJson (addActions as s)) = norm_value (JArr (action s @ map JStr as)) \<and>
   Resource (toJson (addResources rs s)) = norm_value (JArr (resource s @ map JStr rs)) \<and>
   (2 \<le> length as \<longrightarrow>
      Action (toJson (addActions as (PolicyStatement_new e))) = JArr (map JStr as)) \<and>
   (2 \<le> length rs \<longrightarrow>
      Resource (toJson (addResources rs (PolicyStatement_new e))) = JArr (map JStr rs))"
proof -
  have "Action (toJson (addAction a s)) \<noteq> Action (toJson s)"
    by (simp add: toJson_def addAction_def norm_value_push_neq)
  then have 1: "toJson (addAction a s) \<noteq> toJson s" by auto
  have "Resource (toJson (addResource r s)) \<noteq> Resource (toJson s)"
    by (simp add: toJson_def addResource_def norm_value_push_neq)
  then have 2: "toJson (addResource r s) \<noteq> toJson s" by auto
  have 3: "Action (toJson (addActions as s)) = norm_value (JArr (action s @ map JStr as))"
    by (simp add: toJson_def addActions_def action_fold_addAction)
  have 4: "Resource (toJson (addResources rs s)) = norm_value (JArr (resource s @ map JStr rs))"
    by (simp add: toJson_def addResources_def resource_fold_addResource)
  have 5: "2 \<le> length as \<longrightarrow>
      Action (toJson (addActions as (PolicyStatement_new e))) = JArr (map JStr as)"
    by (simp add: toJson_def addActions_def action_fold_addAction PolicyStatement_new_def
        norm_value_many)
  have 6: "2 \<le> length rs \<longrightarrow>
      Resource (toJson (addResources rs (PolicyStatement_new e))) = JArr (map JStr rs)"
    by (simp add: toJson_def addResources_def resource_fold_addResource PolicyStatement_new_def
        norm_value_many)
  from 1 2 3 4 5 6 show ?thesis by blast
qed

theorem actions_resources_keep_duplicates_witness:
  "toJson (addAction ''s3:GetObject'' (addAction ''s3:GetObject'' (PolicyStatement_new None)))
     \<noteq> toJson (addAction ''s3:GetObject'' (PolicyStatement_new None)) \<and>
   (2::nat) \<le> length [''s3:PutObject'', ''s3:GetObject'', ''s3:PutObject''] \<and>
   Action (toJson (addActions [''s3:PutObject'', ''s3:GetObject'', ''s3:PutObject'']
                     (PolicyStatement_new None)))
     = JArr [JStr ''s3:PutObject'', JStr ''s3:GetObject'', JStr ''s3:PutObject'']"
  using actions_resources_keep_duplicates
    [of "''s3:GetObject''" "addAction ''s3:GetObject'' (PolicyStatement_new None)" "''x''"
        "[''s3:PutObject'', ''s3:GetObject'', ''s3:PutObject'']" "[''a'', ''b'']" None]
  by simp

section \<open>The principal map\<close>

text \<open>
  On a well-formed principal map (distinct keys) the loop of \<open>_normPrincipal\<close> builds,
  in the order of the keys, the entries whose \<open>_norm\<close> value is truthy: the keys are
  fresh one after the other, so every assignment to \<open>result\<close> appends.
\<close>

lemma fold_normPrincipal_step:
  assumes "distinct (map fst ps)"
    and "\<forall>(k, vs) \<in> set ps. map_of p k = Some vs"
    and "set (map fst ps) \<inter> set (obj_keys acc) = {}"
  shows "fold (normPrincipal_step p) (map fst ps) acc =
           acc @ (map (\<lambda>(k, vs). (k, norm_value (JArr vs)))
                      (filter (\<lambda>(k, vs). truthy (norm_value (JArr vs))) ps))"
  using assms
proof (induction ps arbitrary: acc)
  case Nil
  then show ?case by simp
next
  case (Cons kv ps)
  obtain k vs where kv: "kv = (k, vs)" by (cases kv)
  let ?nv = "norm_value (JArr vs)"
  let ?acc = "if truthy ?nv then acc @ [(k, ?nv)] else acc"
  have fresh: "k \<notin> set (obj_keys acc)"
    using Cons.prems(3) kv by auto
  have look: "map_of p k = Some vs"
    using Cons.prems(2) kv by auto
  have step: "normPrincipal_step p k acc = ?acc"
    using fresh look by (simp add: normPrincipal_step_def obj_set_fresh)
  have d: "distinct (map fst ps)" and knot: "k \<notin> set (map fst ps)"
    using Cons.prems(1) kv by auto
  have l: "\<forall>(k, vs) \<in> set ps. map_of p k = Some vs"
    using Cons.prems(2) by auto
  have disj: "set (map fst ps) \<inter> set (obj_keys ?acc) = {}"
    using Cons.prems(3) knot kv by (auto simp: obj_keys_def)
  have "fold (normPrincipal_step p) (map fst (kv # ps)) acc =
        fold (normPrincipal_step p) (map fst ps) ?acc"
    using step kv by simp
  also have "\<dots> = ?acc @ (map (\<lambda>(k, vs). (k, norm_value (JArr vs))) (filter (\<lambda>(k, vs). truthy (norm_value (JArr vs))) ps))"
    by (rule Cons.IH [OF d l disj])
  also have "\<dots> = acc @ (map (\<lambda>(k, vs). (k, norm_value (JArr vs))) (filter (\<lambda>(k, vs). truthy (norm_value (JArr vs))) (kv # ps)))"
    using kv by simp
  finally show ?case .
qed

lemma normPrincipal_result_eq:
  assumes "distinct (obj_keys p)"
  shows "normPrincipal_result p = (map (\<lambda>(k, vs). (k, norm_value (JArr vs))) (filter (\<lambda>(k, vs). truthy (norm_value (JArr vs))) p))"
proof -
  have "\<forall>(k, vs) \<in> set p. map_of p k = Some vs"
    using assms by (auto simp: obj_keys_def)
  then have "fold (normPrincipal_step p) (map fst p) [] = [] @ (map (\<lambda>(k, vs). (k, norm_value (JArr vs))) (filter (\<lambda>(k, vs). truthy (norm_value (JArr vs))) p))"
    using assms by (intro fold_normPrincipal_step) (auto simp: obj_keys_def)
  then show ?thesis
    by (simp add: normPrincipal_result_def obj_keys_def)
qed

text \<open>The test \<open>Object.keys(result).length === 1 && result.AWS === '*'\<close>.\<close>

lemma collapse_condition:
  "(length (obj_keys result) = 1 \<and> obj_get result ''AWS'' = JStr ''*'') \<longleftrightarrow>
   result = [(''AWS'', JStr ''*'')]"
proof
  assume a: "length (obj_keys result) = 1 \<and> obj_get result ''AWS'' = JStr ''*''"
  then obtain k v where r: "result = [(k, v)]"
    by (cases result) (auto simp: obj_keys_def)
  with a show "result = [(''AWS'', JStr ''*'')]"
    by (auto simp: obj_get_def split: if_splits)
next
  assume "result = [(''AWS'', JStr ''*'')]"
  then show "length (obj_keys result) = 1 \<and> obj_get result ''AWS'' = JStr ''*''"
    by (simp add: obj_keys_def obj_get_def)
qed

lemma normPrincipal_eq:
  "normPrincipal p =
     (if p = [] then JUndefined
      else if normPrincipal_result p = [(''AWS'', JStr ''*'')] then JStr ''*''
      else JObj (normPrincipal_result p))"
  using collapse_condition [of "normPrincipal_result p"]
  by (auto simp: normPrincipal_def Let_def obj_keys_def)

lemma map_of_normPrincipal_entries:
  assumes "distinct (obj_keys p)" and "(k, vs) \<in> set p"
  shows "map_of ((map (\<lambda>(k, vs). (k, norm_value (JArr vs))) (filter (\<lambda>(k, vs). truthy (norm_value (JArr vs))) p))) k =
           (if truthy (norm_value (JArr vs)) then Some (norm_value (JArr vs)) else None)"
  using assms
proof (induction p)
  case Nil
  then show ?case by simp
next
  case (Cons a p)
  show ?case
  proof (cases "a = (k, vs)")
    case True
    have "k \<notin> fst ` set p" using Cons.prems(1) True by (auto simp: obj_keys_def)
    then have "k \<notin> fst ` set ((map (\<lambda>(k, vs). (k, norm_value (JArr vs))) (filter (\<lambda>(k, vs). truthy (norm_value (JArr vs))) p)))"
      by force
    then have "map_of ((map (\<lambda>(k, vs). (k, norm_value (JArr vs))) (filter (\<lambda>(k, vs). truthy (norm_value (JArr vs))) p))) k = None"
      by (simp add: map_of_eq_None_iff)
    with True show ?thesis by simp
  next
    case False
    then have in_p: "(k, vs) \<in> set p" using Cons.prems(2) by simp
    then have "k \<in> fst ` set p" by force
    then have "fst a \<noteq> k" using Cons.prems(1) by (auto simp: obj_keys_def)
    moreover have "distinct (obj_keys p)" using Cons.prems(1) by (simp add: obj_keys_def)
    ultimately show ?thesis
      using Cons.IH in_p by (cases a) auto
  qed
qed

lemma keys_map_of: "k \<in> set (obj_keys obj) \<longleftrightarrow> map_of obj k \<noteq> None"
  by (simp add: obj_keys_def map_of_eq_None_iff)

text \<open>
  The principal map of a statement that was built by builder calls is well formed: a new
  statement has no keys, and \<open>mergePrincipal\<close> only assigns to keys.
\<close>

lemma principal_fold_addAction: "principal (fold addAction xs s) = principal s"
  by (induction xs arbitrary: s) (simp_all add: addAction_def)

lemma principal_fold_addResource: "principal (fold addResource xs s) = principal s"
  by (induction xs arbitrary: s) (simp_all add: addResource_def)

lemma principal_fold_addCondition:
  "principal (fold (\<lambda>key. addCondition key (f key)) ks s) = principal s"
  by (induction ks arbitrary: s) (simp_all add: addCondition_def)

lemma distinct_fold_obj_set:
  "distinct (obj_keys tgt) \<Longrightarrow> distinct (obj_keys (fold (\<lambda>key t. obj_set key (g key t) t) ks tgt))"
  by (induction ks arbitrary: tgt) (simp_all add: distinct_obj_set)

lemma distinct_mergePrincipal:
  "distinct (obj_keys target) \<Longrightarrow> distinct (obj_keys (mergePrincipal target source))"
  unfolding mergePrincipal_def by (rule distinct_fold_obj_set)

lemma distinct_principal_call:
  "distinct (obj_keys (principal s)) \<Longrightarrow> distinct (obj_keys (principal (call c s)))"
  by (cases c)
     (simp_all add: addAction_def addActions_def principal_fold_addAction addPrincipal_def
        addConditions_def principal_fold_addCondition addResource_def addAllResources_def
        addResources_def principal_fold_addResource describe_def allow_def deny_def
        addCondition_def setCondition_def limitToAccount_def distinct_mergePrincipal)

lemma distinct_principal_calls:
  "distinct (obj_keys (principal (calls cs (PolicyStatement_new eff))))"
proof -
  have "distinct (obj_keys (principal s)) \<Longrightarrow> distinct (obj_keys (principal (fold call cs s)))" for s
    by (induction cs arbitrary: s) (simp_all add: distinct_principal_call)
  then show ?thesis
    by (simp add: calls_def PolicyStatement_new_def obj_keys_def)
qed

text \<open>
  The closed form of the loop's result, in terms of the normalisation rule: of the
  normalised entries, \<open>_normPrincipal\<close> keeps those whose value is truthy.
\<close>

lemma norm_value_spec_norm_list: "vs \<noteq> [] \<Longrightarrow> norm_value (JArr vs) = spec_norm_list vs"
  by (cases vs; cases "tl vs") auto

lemma truthy_entries_spec:
  "map (\<lambda>(k, vs). (k, norm_value (JArr vs)))
       (filter (\<lambda>(k, vs). truthy (norm_value (JArr vs))) p) =
   filter (\<lambda>kv. truthy (snd kv)) (spec_normalized_principal p)"
proof (induction p)
  case Nil
  then show ?case by (simp add: spec_normalized_principal_def)
next
  case (Cons a p)
  obtain k vs where a: "a = (k, vs)" by (cases a)
  show ?case
  proof (cases "vs = []")
    case True
    with a Cons.IH show ?thesis by (simp add: spec_normalized_principal_def)
  next
    case False
    with a Cons.IH show ?thesis
      by (simp add: spec_normalized_principal_def norm_value_spec_norm_list)
  qed
qed

lemma normPrincipal_result_spec:
  "distinct (obj_keys p) \<Longrightarrow>
   normPrincipal_result p = filter (\<lambda>kv. truthy (snd kv)) (spec_normalized_principal p)"
  by (simp add: normPrincipal_result_eq truthy_entries_spec)

text \<open>
  Claim C4 says that the principal is serialized as \<open>'*'\<close> when the per-key
  normalisation has exactly the one key \<open>AWS\<close> with the value \<open>'*'\<close>, and that for any
  other non-empty principal map the object of the normalised entries is emitted. The
  second half fails. After \<open>addPrincipal\<close> of \<open>{ AWS: ['*'] }\<close> and of
  \<open>{ Service: [''] }\<close> the normalisation has two keys, \<open>AWS: '*'\<close> and \<open>Service: ''\<close>,
  but \<open>_normPrincipal\<close> copies a key only \<open>if (normVal)\<close>, so its result has the key
  \<open>AWS\<close> alone and the statement is serialized with the scalar \<open>'*'\<close>.
\<close>

theorem wildcard_collapse_with_second_key:
  "spec_normalized_principal
     (principal (addPrincipal \<lparr>principalJson = [(''Service'', [JStr ''''])], conditions = []\<rparr>
        (addPrincipal \<lparr>principalJson = [(''AWS'', [JStr ''*''])], conditions = []\<rparr>
           (PolicyStatement_new None))))
     = [(''AWS'', JStr ''*''), (''Service'', JStr '''')] \<and>
   Principal (toJson (addPrincipal \<lparr>principalJson = [(''Service'', [JStr ''''])], conditions = []\<rparr>
        (addPrincipal \<lparr>principalJson = [(''AWS'', [JStr ''*''])], conditions = []\<rparr>
           (PolicyStatement_new None))))
     = JStr ''*'' \<and>
   Principal (toJson (addPrincipal \<lparr>principalJson = [(''Service'', [JStr ''''])], conditions = []\<rparr>
        (addPrincipal \<lparr>principalJson = [(''AWS'', [JStr ''*''])], conditions = []\<rparr>
           (PolicyStatement_new None))))
     \<noteq> JObj [(''AWS'', JStr ''*''), (''Service'', JStr '''')]"
  by (simp add: addPrincipal_def addConditions_def mergePrincipal_def PolicyStatement_new_def
      obj_keys_def toJson_def normPrincipal_def normPrincipal_result_def normPrincipal_step_def
      obj_get_def spec_normalized_principal_def)

text \<open>
  Claim C4, amended: for every statement with a non-empty principal map, take the per-key
  normalisation and keep the entries whose normalised value is truthy (a key whose one
  element is the empty string is dropped, like a key with an empty list). If the kept
  entries are exactly the one key \<open>AWS\<close> with the value \<open>'*'\<close>, \<open>Principal\<close> is the
  scalar \<open>'*'\<close>; for any other non-empty principal map the object of the kept entries is
  emitted. When every normalised value is truthy, the kept entries are the whole
  normalisation, and the serialization is as the claim words it. (A map without keys gives
  no \<open>Principal\<close> at all. The map is a JavaScript object, so its keys are distinct.)
\<close>

theorem principal_wildcard_collapse:
  "(principal s = [] \<longrightarrow> Principal (toJson s) = JUndefined) \<and>
   (principal s \<noteq> [] \<and> distinct (obj_keys (principal s)) \<longrightarrow>
      Principal (toJson s) =
        (if filter (\<lambda>kv. truthy (snd kv)) (spec_normalized_principal (principal s))
              = [(''AWS'', JStr ''*'')]
         then JStr ''*''
         else JObj (filter (\<lambda>kv. truthy (snd kv)) (spec_normalized_principal (principal s))))) \<and>
   (principal s \<noteq> [] \<and> distinct (obj_keys (principal s)) \<and>
    (\<forall>kv \<in> set (spec_normalized_principal (principal s)). truthy (snd kv)) \<longrightarrow>
      Principal (toJson s) =
        (if spec_normalized_principal (principal s) = [(''AWS'', JStr ''*'')] then JStr ''*''
         else JObj (spec_normalized_principal (principal s))))"
proof -
  have 1: "principal s = [] \<longrightarrow> Principal (toJson s) = JUndefined"
    by (simp add: toJson_def normPrincipal_eq)
  have 2: "principal s \<noteq> [] \<and> distinct (obj_keys (principal s)) \<longrightarrow>
      Principal (toJson s) =
        (if filter (\<lambda>kv. truthy (snd kv)) (spec_normalized_principal (principal s))
              = [(''AWS'', JStr ''*'')]
         then JStr ''*''
         else JObj (filter (\<lambda>kv. truthy (snd kv)) (spec_normalized_principal (principal s))))"
    by (simp add: toJson_def normPrincipal_eq normPrincipal_result_spec)
  have 3: "principal s \<noteq> [] \<and> distinct (obj_keys (principal s)) \<and>
    (\<forall>kv \<in> set (spec_normalized_principal (principal s)). truthy (snd kv)) \<longrightarrow>
      Principal (toJson s) =
        (if spec_normalized_principal (principal s) = [(''AWS'', JStr ''*'')] then JStr ''*''
         else JObj (spec_normalized_principal (principal s)))"
  proof (intro impI, elim conjE)
    assume ne: "principal s \<noteq> []" and d: "distinct (obj_keys (principal s))"
      and t: "\<forall>kv \<in> set (spec_normalized_principal (principal s)). truthy (snd kv)"
    have "filter (\<lambda>kv. truthy (snd kv)) (spec_normalized_principal (principal s))
            = spec_normalized_principal (principal s)"
      using t by (simp add: filter_id_conv)
    with 2 ne d show "Principal (toJson s) =
        (if spec_normalized_principal (principal s) = [(''AWS'', JStr ''*'')] then JStr ''*''
         else JObj (spec_normalized_principal (principal s)))"
      by simp
  qed
  from 1 2 3 show ?thesis by blast
qed

theorem principal_wildcard_collapse_witness:
  "principal (addPrincipal \<lparr>principalJson = [(''AWS'', [JStr ''*''])], conditions = []\<rparr>
                (PolicyStatement_new None)) \<noteq> [] \<and>
   distinct (obj_keys (principal (addPrincipal \<lparr>principalJson = [(''AWS'', [JStr ''*''])], conditions = []\<rparr>
                (PolicyStatement_new None)))) \<and>
   spec_normalized_principal
        (principal (addPrincipal \<lparr>principalJson = [(''AWS'', [JStr ''*''])], conditions = []\<rparr>
                (PolicyStatement_new None))) = [(''AWS'', JStr ''*'')] \<and>
   truthy (JStr ''*'') \<and>
   Principal (toJson (addPrincipal \<lparr>principalJson = [(''AWS'', [JStr ''*''])], conditions = []\<rparr>
                (PolicyStatement_new None))) = JStr ''*''"
  using principal_wildcard_collapse
    [of "addPrincipal \<lparr>principalJson = [(''AWS'', [JStr ''*''])], conditions = []\<rparr>
                (PolicyStatement_new None)"]
  by (simp add: addPrincipal_def addConditions_def mergePrincipal_def PolicyStatement_new_def
      obj_keys_def spec_normalized_principal_def)

section \<open>Array-valued fields\<close>

text \<open>
  Claim C3 says that every array-valued field, each principal-type list included, is
  serialized as the bare element when it has one element. It fails for a principal list
  whose one element is falsy: \<open>_normPrincipal\<close> copies a key only \<open>if (normVal)\<close>. The
  statement built by \<open>addPrincipal\<close> from the fragment \<open>{ Service: [''] }\<close> holds the
  one-element list, and its \<open>Principal\<close> is the empty object, not \<open>{ Service: '' }\<close>.
\<close>

theorem empty_string_principal_omitted:
  "principal (addPrincipal \<lparr>principalJson = [(''Service'', [JStr ''''])], conditions = []\<rparr>
                (PolicyStatement_new None)) = [(''Service'', [JStr ''''])] \<and>
   Principal (toJson (addPrincipal \<lparr>principalJson = [(''Service'', [JStr ''''])], conditions = []\<rparr>
                (PolicyStatement_new None))) = JObj [] \<and>
   Principal (toJson (addPrincipal \<lparr>principalJson = [(''Service'', [JStr ''''])], conditions = []\<rparr>
                (PolicyStatement_new None))) \<noteq> JObj [(''Service'', JStr '''')]"
  by (simp add: addPrincipal_def addConditions_def mergePrincipal_def PolicyStatement_new_def
      obj_keys_def toJson_def normPrincipal_def normPrincipal_result_def normPrincipal_step_def
      obj_get_def)

text \<open>
  Claim C3, amended: for actions and resources, \<open>toJson\<close> maps an empty array to an absent
  field, a one-element array to the bare element and an array of two or more elements to
  the array itself, in insertion order. For each principal-type list the same holds inside
  the object that \<open>_normPrincipal\<close> builds, except that a one-element list whose element is
  falsy (the empty string) is left out like an empty list; that object is the emitted
  \<open>Principal\<close> unless it is exactly \<open>{ AWS: '*' }\<close>, which is emitted as \<open>'*'\<close>.
\<close>

theorem array_fields_normalised:
  "(action s = [] \<longrightarrow> Action (toJson s) = JUndefined) \<and>
   (action s = [x] \<longrightarrow> Action (toJson s) = x) \<and>
   (2 \<le> length (action s) \<longrightarrow> Action (toJson s) = JArr (action s)) \<and>
   (resource s = [] \<longrightarrow> Resource (toJson s) = JUndefined) \<and>
   (resource s = [y] \<longrightarrow> Resource (toJson s) = y) \<and>
   (2 \<le> length (resource s) \<longrightarrow> Resource (toJson s) = JArr (resource s)) \<and>
   (distinct (obj_keys (principal s)) \<and> (k, vs) \<in> set (principal s) \<longrightarrow>
      (vs = [] \<longrightarrow> k \<notin> set (obj_keys (normPrincipal_result (principal s)))) \<and>
      (vs = [v] \<and> truthy v \<longrightarrow> map_of (normPrincipal_result (principal s)) k = Some v) \<and>
      (vs = [v] \<and> \<not> truthy v \<longrightarrow> k \<notin> set (obj_keys (normPrincipal_result (principal s)))) \<and>
      (2 \<le> length vs \<longrightarrow> map_of (normPrincipal_result (principal s)) k = Some (JArr vs)) \<and>
      Principal (toJson s) =
        (if normPrincipal_result (principal s) = [(''AWS'', JStr ''*'')] then JStr ''*''
         else JObj (normPrincipal_result (principal s))))"
proof -
  have a: "(action s = [] \<longrightarrow> Action (toJson s) = JUndefined) \<and>
   (action s = [x] \<longrightarrow> Action (toJson s) = x) \<and>
   (2 \<le> length (action s) \<longrightarrow> Action (toJson s) = JArr (action s))"
    by (simp add: toJson_def norm_value_many)
  have r: "(resource s = [] \<longrightarrow> Resource (toJson s) = JUndefined) \<and>
   (resource s = [y] \<longrightarrow> Resource (toJson s) = y) \<and>
   (2 \<le> length (resource s) \<longrightarrow> Resource (toJson s) = JArr (resource s))"
    by (simp add: toJson_def norm_value_many)
  have p: "distinct (obj_keys (principal s)) \<and> (k, vs) \<in> set (principal s) \<longrightarrow>
      (vs = [] \<longrightarrow> k \<notin> set (obj_keys (normPrincipal_result (principal s)))) \<and>
      (vs = [v] \<and> truthy v \<longrightarrow> map_of (normPrincipal_result (principal s)) k = Some v) \<and>
      (vs = [v] \<and> \<not> truthy v \<longrightarrow> k \<notin> set (obj_keys (normPrincipal_result (principal s)))) \<and>
      (2 \<le> length vs \<longrightarrow> map_of (normPrincipal_result (principal s)) k = Some (JArr vs)) \<and>
      Principal (toJson s) =
        (if normPrincipal_result (principal s) = [(''AWS'', JStr ''*'')] then JStr ''*''
         else JObj (normPrincipal_result (principal s)))"
  proof (intro impI, elim conjE)
    assume d: "distinct (obj_keys (principal s))" and m: "(k, vs) \<in> set (principal s)"
    have ne: "principal s \<noteq> []" using m by auto
    note mp = map_of_normPrincipal_entries [OF d m]
    show "(vs = [] \<longrightarrow> k \<notin> set (obj_keys (normPrincipal_result (principal s)))) \<and>
      (vs = [v] \<and> truthy v \<longrightarrow> map_of (normPrincipal_result (principal s)) k = Some v) \<and>
      (vs = [v] \<and> \<not> truthy v \<longrightarrow> k \<notin> set (obj_keys (normPrincipal_result (principal s)))) \<and>
      (2 \<le> length vs \<longrightarrow> map_of (normPrincipal_result (principal s)) k = Some (JArr vs)) \<and>
      Principal (toJson s) =
        (if normPrincipal_result (principal s) = [(''AWS'', JStr ''*'')] then JStr ''*''
         else JObj (normPrincipal_result (principal s)))"
      using mp ne
      by (auto simp: normPrincipal_result_eq [OF d] keys_map_of norm_value_many toJson_def
          normPrincipal_eq)
  qed
  from a r p show ?thesis by blast
qed

theorem array_fields_normalised_witness:
  "resource (addPrincipal \<lparr>principalJson = [(''Service'', [JStr ''ec2.amazonaws.com''])], conditions = []\<rparr>
      (addResources [''arn:a'', ''arn:b''] (addAction ''s3:GetObject'' (PolicyStatement_new None))))
     = [JStr ''arn:a'', JStr ''arn:b''] \<and>
   Action (toJson (addPrincipal \<lparr>principalJson = [(''Service'', [JStr ''ec2.amazonaws.com''])], conditions = []\<rparr>
      (addResources [''arn:a'', ''arn:b''] (addAction ''s3:GetObject'' (PolicyStatement_new None)))))
     = JStr ''s3:GetObject'' \<and>
   Resource (toJson (addPrincipal \<lparr>principalJson = [(''Service'', [JStr ''ec2.amazonaws.com''])], conditions = []\<rparr>
      (addResources [''arn:a'', ''arn:b''] (addAction ''s3:GetObject'' (PolicyStatement_new None)))))
     = JArr [JStr ''arn:a'', JStr ''arn:b''] \<and>
   distinct (obj_keys (principal (addPrincipal \<lparr>principalJson = [(''Service'', [JStr ''ec2.amazonaws.com''])], conditions = []\<rparr>
      (addResources [''arn:a'', ''arn:b''] (addAction ''s3:GetObject'' (PolicyStatement_new None)))))) \<and>
   (''Service'', [JStr ''ec2.amazonaws.com'']) \<in> set (principal (addPrincipal \<lparr>principalJson = [(''Service'', [JStr ''ec2.amazonaws.com''])], conditions = []\<rparr>
      (addResources [''arn:a'', ''arn:b''] (addAction ''s3:GetObject'' (PolicyStatement_new None))))) \<and>
   truthy (JStr ''ec2.amazonaws.com'') \<and>
   Principal (toJson (addPrincipal \<lparr>principalJson = [(''Service'', [JStr ''ec2.amazonaws.com''])], conditions = []\<rparr>
      (addResources [''arn:a'', ''arn:b''] (addAction ''s3:GetObject'' (PolicyStatement_new None)))))
     = JObj [(''Service'', JStr ''ec2.amazonaws.com'')]"
  using array_fields_normalised
    [of "addPrincipal \<lparr>principalJson = [(''Service'', [JStr ''ec2.amazonaws.com''])], conditions = []\<rparr>
      (addResources [''arn:a'', ''arn:b''] (addAction ''s3:GetObject'' (PolicyStatement_new None)))"
      "JStr ''s3:GetObject''" "JUndefined" "''Service''" "[JStr ''ec2.amazonaws.com'']"
      "JStr ''ec2.amazonaws.com''"]
  by (simp add: addPrincipal_def addConditions_def mergePrincipal_def addResources_def
      addResource_def addAction_def PolicyStatement_new_def obj_keys_def toJson_def
      normPrincipal_def normPrincipal_result_def normPrincipal_step_def obj_get_def)

section \<open>The effect\<close>

lemma effect_fold_addAction: "effect (fold addAction xs s) = effect s"
  by (induction xs arbitrary: s) (simp_all add: addAction_def)

lemma effect_fold_addResource: "effect (fold addResource xs s) = effect s"
  by (induction xs arbitrary: s) (simp_all add: addResource_def)

lemma effect_fold_addCondition: "effect (fold (\<lambda>key. addCondition key (f key)) ks s) = effect s"
  by (induction ks arbitrary: s) (simp_all add: addCondition_def)

text \<open>Only \<open>allow\<close> and \<open>deny\<close> write the effect.\<close>

lemma effect_call:
  "effect (call c s) =
     (if c = CallAllow then Some Allow else if c = CallDeny then Some Deny else effect s)"
  by (cases c)
     (simp_all add: addAction_def addActions_def effect_fold_addAction addPrincipal_def
        addConditions_def effect_fold_addCondition addResource_def addAllResources_def
        addResources_def effect_fold_addResource describe_def allow_def deny_def
        addCondition_def setCondition_def limitToAccount_def)

lemma effect_calls: "effect s \<noteq> None \<Longrightarrow> effect (calls cs s) \<noteq> None"
  unfolding calls_def
proof (induction cs arbitrary: s)
  case Nil
  then show ?case by simp
next
  case (Cons c cs)
  have "effect (call c s) \<noteq> None"
    using Cons.prems by (simp add: effect_call)
  then show ?case
    using Cons.IH by simp
qed

lemma effect_calls_unchanged:
  "CallAllow \<notin> set cs \<Longrightarrow> CallDeny \<notin> set cs \<Longrightarrow> effect (calls cs s) = effect s"
  unfolding calls_def by (induction cs arbitrary: s) (auto simp: effect_call)

text \<open>
  Claim C10: a statement created without an effect has the effect \<open>Allow\<close>, and \<open>Effect\<close>
  is present in the output of \<open>toJson\<close> after every sequence of builder calls on a new
  statement, with the value \<open>'Allow'\<close> or \<open>'Deny'\<close>; without a call of \<open>allow\<close> or
  \<open>deny\<close> it is the default \<open>'Allow'\<close>. Every other field can be absent: all five are
  absent from the output of a new statement.
\<close>

theorem effect_always_present:
  "effect (PolicyStatement_new None) = Some Allow \<and>
   toJson (PolicyStatement_new None) =
     \<lparr> Action = JUndefined, Condition = JUndefined, Effect = JStr ''Allow'',
       Principal = JUndefined, Resource = JUndefined, Sid = JUndefined \<rparr> \<and>
   Effect (toJson (calls cs (PolicyStatement_new eff))) \<noteq> JUndefined \<and>
   (Effect (toJson (calls cs (PolicyStatement_new eff))) = JStr ''Allow'' \<or>
    Effect (toJson (calls cs (PolicyStatement_new eff))) = JStr ''Deny'') \<and>
   (CallAllow \<notin> set cs \<and> CallDeny \<notin> set cs \<longrightarrow>
      Effect (toJson (calls cs (PolicyStatement_new None))) = JStr ''Allow'')"
proof -
  have 1: "effect (PolicyStatement_new None) = Some Allow"
    by (simp add: PolicyStatement_new_def)
  have 2: "toJson (PolicyStatement_new None) =
     \<lparr> Action = JUndefined, Condition = JUndefined, Effect = JStr ''Allow'',
       Principal = JUndefined, Resource = JUndefined, Sid = JUndefined \<rparr>"
    by (simp add: PolicyStatement_new_def toJson_def normPrincipal_def obj_keys_def)
  have "effect (PolicyStatement_new eff) \<noteq> None"
    by (simp add: PolicyStatement_new_def)
  then obtain e where e: "effect (calls cs (PolicyStatement_new eff)) = Some e"
    using effect_calls [of "PolicyStatement_new eff" cs] by auto
  have 3: "Effect (toJson (calls cs (PolicyStatement_new eff))) = effect_value e"
    using e by (cases e) (simp_all add: toJson_def)
  have 4: "CallAllow \<notin> set cs \<and> CallDeny \<notin> set cs \<longrightarrow>
      Effect (toJson (calls cs (PolicyStatement_new None))) = JStr ''Allow''"
    using 1 by (auto simp: toJson_def effect_calls_unchanged)
  from 1 2 3 4 show ?thesis by (cases e) simp_all
qed

theorem effect_always_present_witness:
  "CallAllow \<notin> set [CallAddAction ''s3:GetObject'', CallDescribe ''sid'', CallAddAllResources] \<and>
   CallDeny \<notin> set [CallAddAction ''s3:GetObject'', CallDescribe ''sid'', CallAddAllResources] \<and>
   Effect (toJson (calls [CallAddAction ''s3:GetObject'', CallDescribe ''sid'', CallAddAllResources]
                     (PolicyStatement_new None))) = JStr ''Allow''"
  using effect_always_present
    [of "[CallAddAction ''s3:GetObject'', CallDescribe ''sid'', CallAddAllResources]" None]
  by simp

section \<open>Serializing a policy document\<close>

text \<open>\<open>resolve\<close> returns no value exactly when no statement was added, whatever the base.\<close>

lemma resolve_None_iff: "PolicyDocument_resolve d = None \<longleftrightarrow> statements d = []"
  by (simp add: PolicyDocument_resolve_def isEmpty_def Let_def)

text \<open>
  With at least one added statement the result holds the base document's statements
  followed by the added ones, and the base document's version or the default.
\<close>

lemma resolve_with_statements:
  assumes "statements d \<noteq> []"
  shows "\<exists>doc. PolicyDocument_resolve d = Some doc \<and>
           Statement doc =
             Some ((case baseDocument d of
                      None \<Rightarrow> []
                    | Some b \<Rightarrow> (case Statement b of None \<Rightarrow> [] | Some ss \<Rightarrow> ss)) @
                   map Added (statements d)) \<and>
           Version doc =
             (case baseDocument d of
                None \<Rightarrow> JStr ''2012-10-17''
              | Some b \<Rightarrow> if truthy (Version b) then Version b else JStr ''2012-10-17'')"
  using assms
  by (auto simp: PolicyDocument_resolve_def isEmpty_def Let_def split: option.splits)

text \<open>
  Claim C1 says that a document built on a base document with one existing statement,
  with no statement added, serializes to the base document's statement list with the
  version defaulted. The constructor's documentation says that all statements of the base
  document are copied in. \<open>resolve\<close> returns \<open>undefined\<close> whenever \<open>isEmpty\<close> holds,
  and \<open>isEmpty\<close> looks at the added statements only: for such a document the result is
  no value, and the statement of the base document is lost.
\<close>

theorem base_document_dropped_without_statements:
  "PolicyDocument_resolve
     (PolicyDocument_new
        (Some \<lparr> Version = JUndefined,
                Statement = Some [Existing (JObj [(''Effect'', JStr ''Allow''),
                                                   (''Action'', JStr ''s3:GetObject''),
                                                   (''Resource'', JStr ''*'')])],
                Other = [] \<rparr>)) = None"
  by (simp add: PolicyDocument_resolve_def PolicyDocument_new_def isEmpty_def)

section \<open>The diagnostics of the cluster constructor\<close>
















subsection \<open>The cluster name\<close>


text \<open>
  Claim C2 says that a resolved name with a character that is not alphanumeric, such as
  \<open>bad name!\<close>, of length at most 64, gets a character-set diagnostic. The message of
  the check says that a name must only contain alphanumeric characters and have a maximum
  length of 64 characters, but the check joins the two tests with \<open>&&\<close>: for
  \<open>bad name!\<close> and otherwise valid properties, neither revision of the constructor
  produces any diagnostic.
\<close>

theorem bad_name_not_reported:
  "\<not> alphanumeric_test ''bad name!'' \<and> length ''bad name!'' \<le> 64 \<and>
   Cluster_errors [''subnet-1'', ''subnet-2'']
     \<lparr> clusterName = Resolved ''bad name!'',
       brokerNodeGroupProps =
         \<lparr> selectSubnets = Inr [''subnet-1'', ''subnet-2''], securityGroups = None,
           storageInfo = None \<rparr>,
       encryptionInTransit = None, clientAuthentication = None \<rparr> = [] \<and>
   Cluster_errors_addUser [''subnet-1'', ''subnet-2'']
     \<lparr> clusterName = Resolved ''bad name!'',
       brokerNodeGroupProps =
         \<lparr> selectSubnets = Inr [''subnet-1'', ''subnet-2''], securityGroups = None,
           storageInfo = None \<rparr>,
       encryptionInTransit = None, clientAuthentication = None \<rparr> = [] \<and>
   (\<exists>c. Cluster_new
          \<lparr> clusterName = Resolved ''bad name!'',
            brokerNodeGroupProps =
              \<lparr> selectSubnets = Inr [''subnet-1'', ''subnet-2''], securityGroups = None,
                storageInfo = None \<rparr>,
            encryptionInTransit = None, clientAuthentication = None \<rparr> = Inr c \<and>
        annotations c = []) \<and>
   (\<exists>c. Cluster_new_addUser
          \<lparr> clusterName = Resolved ''bad name!'',
            brokerNodeGroupProps =
              \<lparr> selectSubnets = Inr [''subnet-1'', ''subnet-2''], securityGroups = None,
                storageInfo = None \<rparr>,
            encryptionInTransit = None, clientAuthentication = None \<rparr> = Inr c \<and>
        annotations c = [])"
  by (simp add: Cluster_errors_def Cluster_errors_addUser_def check_subnets_def check_name_def
      check_exclusive_def check_encryption_def check_volume_def alphanumeric_test_def
      alphanumerics_def props_clientBroker_def props_certificateAuthorityArns_def
      props_scram_def props_volumeSize_def truthy_array_def truthy_bool_def
      Cluster_new_def Cluster_new_addUser_def construct_def connections_def Let_def)

subsection \<open>Plaintext traffic and client authentication\<close>




subsection \<open>The volume size\<close>




section \<open>Connections, aborts and accumulated diagnostics\<close>











end
